theory Spec2Isabelle
  imports Main
begin

section \<open>Types of the apps framework used by the handlers\<close>

text \<open>
  The welcome bot is a set of HTTP handlers written against the Mattermost apps
  framework. The framework's types are not part of the repository; the fields the
  handlers touch (or that a claim speaks about) are declared here as the Go code
  uses them.
\<close>

text \<open>A decoded JSON value, the content of Go's \<open>interface{}\<close> after decoding.\<close>

datatype json =
    JNull
  | JBool bool
  | JNumber int
  | JString string
  | JArray "json list"
  | JObject "(string \<times> json) list"

text \<open>Go's \<open>error\<close> values that occur in the model.\<close>

datatype error =
    EOF
  | SyntaxError
  | UnmarshalTypeError
  | NotFound
  | Unavailable

datatype panic = NilPointerDereference

datatype ChannelType =
    ChannelTypeOpen
  | ChannelTypePrivate
  | ChannelTypeDirect
  | ChannelTypeGroup

record User =
  Id :: string
  Username :: string

record Channel =
  ChannelId :: string
  Type :: ChannelType

text \<open>
  \<open>apps.Context\<close> with its expanded part: \<open>ActingUser\<close> and \<open>Channel\<close> are pointers
  (\<open>*model.User\<close>, \<open>*model.Channel\<close>), \<open>None\<close> is the nil pointer.
\<close>

record Context =
  ChannelID :: string
  TeamID :: string
  BotAccessToken :: string
  MattermostSiteURL :: string
  ActingUser :: "User option"
  Channel :: "Channel option"

text \<open>\<open>apps.CallRequest\<close>: the invocation context and the submitted form values.\<close>

record CallRequest =
  Context :: Context
  Values :: "string \<rightharpoonup> json"

text \<open>The zero value \<open>apps.CallRequest{}\<close> every handler starts from.\<close>

definition zeroContext :: Context where
  "zeroContext =
     \<lparr>ChannelID = [], TeamID = [], BotAccessToken = [], MattermostSiteURL = [],
      ActingUser = None, Channel = None\<rparr>"

definition zeroCallRequest :: CallRequest where
  "zeroCallRequest = \<lparr>Context = zeroContext, Values = Map.empty\<rparr>"

text \<open>
  The body of an HTTP request, by what \<open>json.NewDecoder(req.Body).Decode(&c)\<close> makes
  of it: nothing to read, text that is not JSON, JSON of which a field has the wrong
  type (the decoder fills the other fields and reports the error), and JSON of a
  call request.
\<close>

datatype Body =
    NoBody
  | Malformed
  | Mistyped CallRequest
  | Json CallRequest

text \<open>
  \<open>Decode\<close> returns the error and the request as the decoder leaves it, starting
  from the zero value.
\<close>

fun Decode :: "Body \<Rightarrow> error option \<times> CallRequest" where
  "Decode NoBody = (Some EOF, zeroCallRequest)"
| "Decode Malformed = (Some SyntaxError, zeroCallRequest)"
| "Decode (Mistyped c) = (Some UnmarshalTypeError, c)"
| "Decode (Json c) = (None, c)"

text \<open>\<open>c.Values["message"]\<close>: reading a Go map gives nil for a missing key.\<close>

definition index_Values :: "(string \<rightharpoonup> json) \<Rightarrow> string \<Rightarrow> json" where
  "index_Values m k = (case m k of None \<Rightarrow> JNull | Some v \<Rightarrow> v)"

datatype CallResponseType =
    CallResponseTypeOK
  | CallResponseTypeError

record CallResponse =
  Type :: CallResponseType
  Text :: string

text \<open>
  Modelled from the spec: \<open>apps.NewTextResponse\<close> is a function of the framework, not
  of the repository. The spec has a command return "a response type (text or data)
  and payload"; the text response carries the given string as its payload.
\<close>

definition NewTextResponse :: "string \<Rightarrow> CallResponse" where
  "NewTextResponse message = \<lparr>Type = CallResponseTypeOK, Text = message\<rparr>"

section \<open>The bot client\<close>

text \<open>
  \<open>appclient.AsBot(c.Context)\<close> gives the handler a client of the platform. The
  client is external: a handler is a function of whatever the client does. The state
  \<open>'s\<close> is the platform's; each operation returns what the Go method returns and the
  state it leaves.

  \<^item> \<open>KVGet prefix id &ref\<close> returns an error, or decodes the stored value into the
    string \<open>ref\<close> points to;
  \<^item> \<open>KVSet prefix id &ref\<close> returns \<open>(isSet, err)\<close>;
  \<^item> \<open>KVDelete prefix id\<close> returns an error or nil;
  \<^item> \<open>DM userID message\<close> posts a direct message (its results are dropped by the
    caller).
\<close>

record 's Client =
  KVGet :: "string \<Rightarrow> string \<Rightarrow> 's \<Rightarrow> (error + string) \<times> 's"
  KVSet :: "string \<Rightarrow> string \<Rightarrow> json \<Rightarrow> 's \<Rightarrow> (bool \<times> error option) \<times> 's"
  KVDelete :: "string \<Rightarrow> string \<Rightarrow> 's \<Rightarrow> error option \<times> 's"
  DM :: "string \<Rightarrow> string \<Rightarrow> 's \<Rightarrow> 's"

section \<open>The handlers (src/unnamed/part\_000)\<close>

definition KVAppPrefix :: string where
  "KVAppPrefix = ''wb''"

definition commandHelp :: string where
  "commandHelp =
     ''* |/welcomebot preview [team-name] | - preview the welcome message for the given team name. The current user's username will be used to render the template.\<newline>'' @
     ''* |/welcomebot list| - list the teams for which welcome messages were defined\<newline>'' @
     ''* |/welcomebot set_channel_welcome [welcome-message]| - set the welcome message for the given channel. Direct channels are not supported.\<newline>'' @
     ''* |/welcomebot get_channel_welcome| - print the welcome message set for the given channel (if any)\<newline>'' @
     ''* |/welcomebot delete_channel_welcome| - delete the welcome message for the given channel (if any)\<newline>''"

text \<open>
  Every handler takes the framework's \<open>AsBot\<close>, the request body and the platform's
  state, and returns the response written with \<open>httputils.WriteJSON\<close> and the state it
  leaves. \<open>HelpCall\<close> and \<open>PreviewCall\<close> read neither the request nor the client.
\<close>

definition HelpCall :: "(Context \<Rightarrow> 's Client) \<Rightarrow> Body \<Rightarrow> 's \<Rightarrow> CallResponse \<times> 's" where
  "HelpCall AsBot body w = (NewTextResponse commandHelp, w)"

definition PreviewCall :: "(Context \<Rightarrow> 's Client) \<Rightarrow> Body \<Rightarrow> 's \<Rightarrow> CallResponse \<times> 's" where
  "PreviewCall AsBot body w = (NewTextResponse ''Shown Welcome Bot Preview'', w)"

definition ListCall :: "(Context \<Rightarrow> 's Client) \<Rightarrow> Body \<Rightarrow> 's \<Rightarrow> CallResponse \<times> 's" where
  "ListCall AsBot body w =
     (let c = snd (Decode body);
          client = AsBot (Context c);
          (err, w') = KVGet client KVAppPrefix ''welcome_message'' w;
          message =
            (case err of
               Inl e \<Rightarrow> ''You need to set the `welcome_messages` with set_welcome_message''
             | Inr welcomeMessages \<Rightarrow> ''Shown Welcome Bot List'')
      in (NewTextResponse message, w'))"

text \<open>\<open>log.Println(err)\<close> on the failure branch writes to the process log only.\<close>

definition SetChannelWelcomeCall ::
    "(Context \<Rightarrow> 's Client) \<Rightarrow> Body \<Rightarrow> 's \<Rightarrow> CallResponse \<times> 's" where
  "SetChannelWelcomeCall AsBot body w =
     (let c = snd (Decode body);
          welcomeMessages = index_Values (Values c) ''message'';
          client = AsBot (Context c);
          ((isSet, err), w') = KVSet client KVAppPrefix ''welcome_message'' welcomeMessages w;
          message =
            (if err \<noteq> None \<or> \<not> isSet then ''We couldn't set your message''
             else ''Your message has been set'')
      in (NewTextResponse message, w'))"

definition GetChannelWelcomeCall ::
    "(Context \<Rightarrow> 's Client) \<Rightarrow> Body \<Rightarrow> 's \<Rightarrow> CallResponse \<times> 's" where
  "GetChannelWelcomeCall AsBot body w =
     (let c = snd (Decode body);
          client = AsBot (Context c);
          (err, w') = KVGet client KVAppPrefix ''welcome_message'' w;
          message =
            (case err of
               Inl e \<Rightarrow> ''You need to set the `welcome_messages` with set_welcome_message''
             | Inr welcomeMessages \<Rightarrow> welcomeMessages)
      in (NewTextResponse message, w'))"

definition DeleteChannelWelcomeCall ::
    "(Context \<Rightarrow> 's Client) \<Rightarrow> Body \<Rightarrow> 's \<Rightarrow> CallResponse \<times> 's" where
  "DeleteChannelWelcomeCall AsBot body w =
     (let c = snd (Decode body);
          client = AsBot (Context c);
          (err, w') = KVDelete client KVAppPrefix ''welcome_message'' w
      in (NewTextResponse ''Shown Welcome Bot Delete channel welcome'', w'))"

text \<open>
  The command endpoints \<open>main\<close> registers with \<open>http.HandleFunc\<close>: \<open>/preview\<close>,
  \<open>/help\<close>, \<open>/list\<close>, \<open>/set_channel_welcome\<close>, \<open>/get_channel_welcome\<close> and
  \<open>/delete_channel_welcome\<close>.
\<close>

datatype Command =
    Preview
  | Help
  | List
  | SetChannelWelcome
  | GetChannelWelcome
  | DeleteChannelWelcome

fun handler ::
    "Command \<Rightarrow> (Context \<Rightarrow> 's Client) \<Rightarrow> Body \<Rightarrow> 's \<Rightarrow> CallResponse \<times> 's" where
  "handler Preview = PreviewCall"
| "handler Help = HelpCall"
| "handler List = ListCall"
| "handler SetChannelWelcome = SetChannelWelcomeCall"
| "handler GetChannelWelcome = GetChannelWelcomeCall"
| "handler DeleteChannelWelcome = DeleteChannelWelcomeCall"

section \<open>The handlers of src/main.go\<close>

text \<open>
  \<open>src/main.go\<close> declares the same six handlers. Five of them write a fixed text
  and read nothing. \<open>HelpCall\<close> decodes the request, sends a direct message to
  \<open>c.Context.ActingUser.Id\<close> and then writes its text; reading \<open>.Id\<close> through a nil
  \<open>ActingUser\<close> panics before anything is written.
\<close>

definition Main_HelpCall ::
    "(Context \<Rightarrow> 's Client) \<Rightarrow> Body \<Rightarrow> 's \<Rightarrow> panic + CallResponse \<times> 's" where
  "Main_HelpCall AsBot body w =
     (let c = snd (Decode body);
          message = ''Help Call'';
          client = AsBot (Context c)
      in case ActingUser (Context c) of
           None \<Rightarrow> Inl NilPointerDereference
         | Some u \<Rightarrow>
             (let w' = DM client (Id u) message w
              in Inr (NewTextResponse ''Shown Welcome Bot Help'', w')))"

definition Main_PreviewCall ::
    "(Context \<Rightarrow> 's Client) \<Rightarrow> Body \<Rightarrow> 's \<Rightarrow> panic + CallResponse \<times> 's" where
  "Main_PreviewCall AsBot body w = Inr (NewTextResponse ''Shown Welcome Bot Preview'', w)"

definition Main_ListCall ::
    "(Context \<Rightarrow> 's Client) \<Rightarrow> Body \<Rightarrow> 's \<Rightarrow> panic + CallResponse \<times> 's" where
  "Main_ListCall AsBot body w = Inr (NewTextResponse ''Shown Welcome Bot List'', w)"

definition Main_SetChannelWelcomeCall ::
    "(Context \<Rightarrow> 's Client) \<Rightarrow> Body \<Rightarrow> 's \<Rightarrow> panic + CallResponse \<times> 's" where
  "Main_SetChannelWelcomeCall AsBot body w =
     Inr (NewTextResponse ''Shown Welcome Bot Set channel welcome'', w)"

definition Main_GetChannelWelcomeCall ::
    "(Context \<Rightarrow> 's Client) \<Rightarrow> Body \<Rightarrow> 's \<Rightarrow> panic + CallResponse \<times> 's" where
  "Main_GetChannelWelcomeCall AsBot body w =
     Inr (NewTextResponse ''Shown Welcome Bot Get Channel welcome'', w)"

definition Main_DeleteChannelWelcomeCall ::
    "(Context \<Rightarrow> 's Client) \<Rightarrow> Body \<Rightarrow> 's \<Rightarrow> panic + CallResponse \<times> 's" where
  "Main_DeleteChannelWelcomeCall AsBot body w =
     Inr (NewTextResponse ''Shown Welcome Bot Delete channel welcome'', w)"

fun Main_handler ::
    "Command \<Rightarrow> (Context \<Rightarrow> 's Client) \<Rightarrow> Body \<Rightarrow> 's \<Rightarrow> panic + CallResponse \<times> 's" where
  "Main_handler Preview = Main_PreviewCall"
| "Main_handler Help = Main_HelpCall"
| "Main_handler List = Main_ListCall"
| "Main_handler SetChannelWelcome = Main_SetChannelWelcomeCall"
| "Main_handler GetChannelWelcome = Main_GetChannelWelcomeCall"
| "Main_handler DeleteChannelWelcome = Main_DeleteChannelWelcomeCall"

section \<open>Clients to run the handlers against\<close>

text \<open>
  Modelled from the spec: the key-value store of the platform is the external
  collaborator \<open>KeyValueStore\<close>, "keyed by (prefix, key)", with
  \<open>get(namespacePrefix, key) -> value|absent\<close>, \<open>set(namespacePrefix, key, value) -> ok\<close>
  and \<open>delete(namespacePrefix, key) -> ok\<close>, where deleting an absent key is no error
  and a key never set or deleted reads as \<open>NotFound\<close>. The value is stored as it
  was given. Reading decodes it into a Go string: a JSON string gives its text, JSON
  null leaves the string empty, any other value is a type error.
\<close>

type_synonym KVStore = "string \<times> string \<rightharpoonup> json"

fun decode_string :: "json \<Rightarrow> error + string" where
  "decode_string (JString t) = Inr t"
| "decode_string JNull = Inr []"
| "decode_string v = Inl UnmarshalTypeError"

definition Store_Client :: "KVStore Client" where
  "Store_Client =
     \<lparr>KVGet = (\<lambda>prefix key s.
        (case s (prefix, key) of None \<Rightarrow> Inl NotFound | Some v \<Rightarrow> decode_string v, s)),
      KVSet = (\<lambda>prefix key v s. ((True, None), s((prefix, key) \<mapsto> v))),
      KVDelete = (\<lambda>prefix key s. (None, s((prefix, key) := None))),
      DM = (\<lambda>user message s. s)\<rparr>"

definition Store_AsBot :: "Context \<Rightarrow> KVStore Client" where
  "Store_AsBot ctx = Store_Client"

text \<open>
  Modelled from the spec: "any underlying store unavailability or write conflict is
  reported as Failure". A client whose platform cannot be reached fails every
  operation and changes nothing.
\<close>

definition Unavailable_Client :: "'s Client" where
  "Unavailable_Client =
     \<lparr>KVGet = (\<lambda>prefix key s. (Inl Unavailable, s)),
      KVSet = (\<lambda>prefix key v s. ((False, Some Unavailable), s)),
      KVDelete = (\<lambda>prefix key s. (Some Unavailable, s)),
      DM = (\<lambda>user message s. s)\<rparr>"

definition Unavailable_AsBot :: "Context \<Rightarrow> 's Client" where
  "Unavailable_AsBot ctx = Unavailable_Client"

text \<open>
  A client that records every operation it is asked for, in order, beside the state
  of the client it wraps. Running a handler with it shows which operations of the
  store the handler performs, and on which keys.
\<close>

datatype Access =
    KVGetAccess string string
  | KVSetAccess string string json
  | KVDeleteAccess string string
  | DMAccess string string

definition Recording :: "'s Client \<Rightarrow> ('s \<times> Access list) Client" where
  "Recording cl =
     \<lparr>KVGet = (\<lambda>prefix key (s, acc).
        (fst (KVGet cl prefix key s),
         (snd (KVGet cl prefix key s), acc @ [KVGetAccess prefix key]))),
      KVSet = (\<lambda>prefix key v (s, acc).
        (fst (KVSet cl prefix key v s),
         (snd (KVSet cl prefix key v s), acc @ [KVSetAccess prefix key v]))),
      KVDelete = (\<lambda>prefix key (s, acc).
        (fst (KVDelete cl prefix key s),
         (snd (KVDelete cl prefix key s), acc @ [KVDeleteAccess prefix key]))),
      DM = (\<lambda>user message (s, acc).
        (DM cl user message s, acc @ [DMAccess user message]))\<rparr>"

text \<open>The accesses a handler performs, started on state \<open>w\<close> with an empty record.\<close>

definition accesses ::
    "((Context \<Rightarrow> ('s \<times> Access list) Client) \<Rightarrow> Body \<Rightarrow> 's \<times> Access list \<Rightarrow> CallResponse \<times> 's \<times> Access list)
      \<Rightarrow> (Context \<Rightarrow> 's Client) \<Rightarrow> Body \<Rightarrow> 's \<Rightarrow> Access list" where
  "accesses h AsBot body w = snd (snd (h (\<lambda>ctx. Recording (AsBot ctx)) body (w, [])))"

text \<open>The store key an access addresses; a direct message addresses none.\<close>

fun access_key :: "Access \<Rightarrow> (string \<times> string) option" where
  "access_key (KVGetAccess prefix key) = Some (prefix, key)"
| "access_key (KVSetAccess prefix key v) = Some (prefix, key)"
| "access_key (KVDeleteAccess prefix key) = Some (prefix, key)"
| "access_key (DMAccess user message) = None"

section \<open>Reading the usage text\<close>

text \<open>Go's \<open>strings.HasPrefix\<close> and \<open>strings.Contains\<close>, to say what a text lists.\<close>

fun hasPrefix :: "string \<Rightarrow> string \<Rightarrow> bool" where
  "hasPrefix s [] = True"
| "hasPrefix [] (p # ps) = False"
| "hasPrefix (c # cs) (p # ps) = (c = p \<and> hasPrefix cs ps)"

fun contains :: "string \<Rightarrow> string \<Rightarrow> bool" where
  "contains [] sub = (sub = [])"
| "contains (c # cs) sub = (hasPrefix (c # cs) sub \<or> contains cs sub)"

text \<open>A usage text enumerates a command when it has the entry \<open>/welcomebot <command>\<close>.\<close>

definition enumerates :: "string \<Rightarrow> string \<Rightarrow> bool" where
  "enumerates usage command = contains usage (''/welcomebot '' @ command)"

section \<open>Properties\<close>

lemma accesses_simps:
  "accesses HelpCall AsBot body w = []"
  "accesses PreviewCall AsBot body w = []"
  "accesses ListCall AsBot body w = [KVGetAccess KVAppPrefix ''welcome_message'']"
  "accesses SetChannelWelcomeCall AsBot body w =
     [KVSetAccess KVAppPrefix ''welcome_message''
        (index_Values (Values (snd (Decode body))) ''message'')]"
  "accesses GetChannelWelcomeCall AsBot body w = [KVGetAccess KVAppPrefix ''welcome_message'']"
  "accesses DeleteChannelWelcomeCall AsBot body w =
     [KVDeleteAccess KVAppPrefix ''welcome_message'']"
  by (simp_all add: accesses_def HelpCall_def PreviewCall_def ListCall_def
      SetChannelWelcomeCall_def GetChannelWelcomeCall_def DeleteChannelWelcomeCall_def
      Recording_def Let_def split: prod.splits)

lemma Store_Client_sel:
  "KVGet Store_Client prefix key s =
     (case s (prefix, key) of None \<Rightarrow> Inl NotFound | Some v \<Rightarrow> decode_string v, s)"
  "KVSet Store_Client prefix key v s = ((True, None), s((prefix, key) \<mapsto> v))"
  "KVDelete Store_Client prefix key s = (None, s((prefix, key) := None))"
  by (simp_all add: Store_Client_def)

lemma Unavailable_Client_sel:
  "KVGet Unavailable_Client prefix key w = (Inl Unavailable, w)"
  "KVSet Unavailable_Client prefix key v w = ((False, Some Unavailable), w)"
  "KVDelete Unavailable_Client prefix key w = (Some Unavailable, w)"
  by (simp_all add: Unavailable_Client_def)

text \<open>
  With the handlers of \<open>src/unnamed/part_000\<close> a request always gets a text response,
  whatever the body and whatever the client does.
\<close>

lemma handler_responds:
  "Type (fst (handler cmd AsBot body w)) = CallResponseTypeOK"
  by (cases cmd)
     (simp_all add: HelpCall_def PreviewCall_def ListCall_def SetChannelWelcomeCall_def
        GetChannelWelcomeCall_def DeleteChannelWelcomeCall_def NewTextResponse_def
        Let_def split: prod.splits)

subsection \<open>C1: a message set is the message read\<close>

text \<open>
  C1. When \<open>set_channel_welcome\<close> is invoked with the form value \<open>message = text\<close>
  and \<open>get_channel_welcome\<close> is invoked on the store state the set left, the response
  of the get is the text response whose text is exactly \<open>text\<close>. The store is the
  platform's key-value store; the get may come with any request body.
\<close>

theorem set_then_get_returns_text:
  assumes "Values (snd (Decode body)) ''message'' = Some (JString text)"
  shows "fst (GetChannelWelcomeCall Store_AsBot body'
            (snd (SetChannelWelcomeCall Store_AsBot body s)))
         = \<lparr>Type = CallResponseTypeOK, Text = text\<rparr>"
  using assms
  by (simp add: GetChannelWelcomeCall_def SetChannelWelcomeCall_def Store_AsBot_def
      Store_Client_sel index_Values_def NewTextResponse_def Let_def)

theorem set_then_get_returns_text_witness:
  "fst (GetChannelWelcomeCall Store_AsBot NoBody
     (snd (SetChannelWelcomeCall Store_AsBot
        (Json \<lparr>Context = zeroContext,
               Values = [''team_name'' \<mapsto> JString ''Acme'',
                         ''message'' \<mapsto> JString ''Welcome to Acme!'']\<rparr>)
        Map.empty)))
   = \<lparr>Type = CallResponseTypeOK, Text = ''Welcome to Acme!''\<rparr>"
  using set_then_get_returns_text
    [of "Json \<lparr>Context = zeroContext,
               Values = [''team_name'' \<mapsto> JString ''Acme'',
                         ''message'' \<mapsto> JString ''Welcome to Acme!'']\<rparr>"
        "''Welcome to Acme!''" NoBody Map.empty]
  by simp

subsection \<open>C2: one key for every operation\<close>

text \<open>
  C2. Every key-value operation a handler performs addresses the key
  \<open>"welcome_message"\<close> under the prefix \<open>"wb"\<close>, whatever the request (and so whatever
  its channel or team) and whatever the client answers. On the platform's store no
  other key is changed by any handler: there is at most one stored welcome message.
\<close>

theorem every_access_on_the_fixed_key:
  "list_all (\<lambda>a. access_key a = Some (''wb'', ''welcome_message''))
     (accesses (handler cmd) AsBot body w)
   \<and> (\<forall>k. k \<noteq> (''wb'', ''welcome_message'') \<longrightarrow>
         snd (handler cmd Store_AsBot body s) k = s k)"
  by (cases cmd)
     (simp_all add: accesses_simps KVAppPrefix_def HelpCall_def PreviewCall_def ListCall_def
        SetChannelWelcomeCall_def GetChannelWelcomeCall_def DeleteChannelWelcomeCall_def
        Store_AsBot_def Store_Client_sel Let_def)

theorem every_access_on_the_fixed_key_witness:
  "accesses (handler SetChannelWelcome) Store_AsBot
     (Json \<lparr>Context = zeroContext\<lparr>ChannelID := ''town-square'', TeamID := ''acme''\<rparr>,
            Values = [''message'' \<mapsto> JString ''hello'']\<rparr>)
     [(''wb'', ''other'') \<mapsto> JString ''kept'']
   = [KVSetAccess ''wb'' ''welcome_message'' (JString ''hello'')]
   \<and> snd (handler SetChannelWelcome Store_AsBot
       (Json \<lparr>Context = zeroContext\<lparr>ChannelID := ''town-square'', TeamID := ''acme''\<rparr>,
              Values = [''message'' \<mapsto> JString ''hello'']\<rparr>)
       [(''wb'', ''other'') \<mapsto> JString ''kept'']) (''wb'', ''other'')
     = Some (JString ''kept'')"
  using every_access_on_the_fixed_key
    [of SetChannelWelcome Store_AsBot
        "Json \<lparr>Context = zeroContext\<lparr>ChannelID := ''town-square'', TeamID := ''acme''\<rparr>,
               Values = [''message'' \<mapsto> JString ''hello'']\<rparr>"
        "[(''wb'', ''other'') \<mapsto> JString ''kept'']"
        "[(''wb'', ''other'') \<mapsto> JString ''kept'']"]
  by (simp add: accesses_simps KVAppPrefix_def index_Values_def)

subsection \<open>C5: reading where nothing is stored\<close>

text \<open>
  C5. Where no welcome message is stored (none was ever set, or it was deleted),
  \<open>get_channel_welcome\<close> answers with the guidance text "You need to set ..." as an
  ordinary text response: the response is not an error response and its text is not
  empty. The store is left as it was.
\<close>

theorem get_without_message_gives_guidance:
  assumes "s (KVAppPrefix, ''welcome_message'') = None"
  shows "GetChannelWelcomeCall Store_AsBot body s =
           (\<lparr>Type = CallResponseTypeOK,
             Text = ''You need to set the `welcome_messages` with set_welcome_message''\<rparr>, s)
         \<and> Type (fst (GetChannelWelcomeCall Store_AsBot body s)) \<noteq> CallResponseTypeError
         \<and> Text (fst (GetChannelWelcomeCall Store_AsBot body s)) \<noteq> []"
  using assms
  by (simp add: GetChannelWelcomeCall_def Store_AsBot_def Store_Client_sel
      NewTextResponse_def Let_def)

theorem get_without_message_gives_guidance_witness:
  "GetChannelWelcomeCall Store_AsBot (Json zeroCallRequest) Map.empty =
     (\<lparr>Type = CallResponseTypeOK,
       Text = ''You need to set the `welcome_messages` with set_welcome_message''\<rparr>, Map.empty)"
  using get_without_message_gives_guidance [of Map.empty "Json zeroCallRequest"]
  by simp

subsection \<open>C6: the set reports whether the write succeeded\<close>

text \<open>
  C6. Let the write \<open>KVSet\<close> that \<open>set_channel_welcome\<close> performs return
  \<open>(isSet, err)\<close>. The handler answers with a text response in either case: the text
  is "Your message has been set" when the write succeeded (no error and \<open>isSet\<close>),
  and "We couldn't set your message" when it did not (an error, or not set). So
  the failure text is returned if and only if the write did not succeed. This holds
  for every client and every request body.
\<close>

theorem set_reports_write_result:
  assumes "KVSet (AsBot (Context (snd (Decode body)))) KVAppPrefix ''welcome_message''
             (index_Values (Values (snd (Decode body))) ''message'') w = ((isSet, err), w')"
  shows "SetChannelWelcomeCall AsBot body w =
           (\<lparr>Type = CallResponseTypeOK,
             Text = (if err = None \<and> isSet then ''Your message has been set''
                     else ''We couldn't set your message'')\<rparr>, w')
         \<and> (Text (fst (SetChannelWelcomeCall AsBot body w)) = ''We couldn't set your message''
              \<longleftrightarrow> \<not> (err = None \<and> isSet))"
  using assms
  by (simp add: SetChannelWelcomeCall_def NewTextResponse_def Let_def)

theorem set_reports_write_result_witness:
  "SetChannelWelcomeCall Unavailable_AsBot
     (Json \<lparr>Context = zeroContext, Values = [''message'' \<mapsto> JString ''hello'']\<rparr>) (0::nat)
   = (\<lparr>Type = CallResponseTypeOK, Text = ''We couldn't set your message''\<rparr>, 0)
   \<and> SetChannelWelcomeCall Store_AsBot
       (Json \<lparr>Context = zeroContext, Values = [''message'' \<mapsto> JString ''hello'']\<rparr>) Map.empty
     = (\<lparr>Type = CallResponseTypeOK, Text = ''Your message has been set''\<rparr>,
        [(''wb'', ''welcome_message'') \<mapsto> JString ''hello''])"
  using
    set_reports_write_result
      [of Unavailable_AsBot
          "Json \<lparr>Context = zeroContext, Values = [''message'' \<mapsto> JString ''hello'']\<rparr>"
          "0::nat" False "Some Unavailable" 0]
    set_reports_write_result
      [of Store_AsBot
          "Json \<lparr>Context = zeroContext, Values = [''message'' \<mapsto> JString ''hello'']\<rparr>"
          Map.empty True None "[(''wb'', ''welcome_message'') \<mapsto> JString ''hello'']"]
  by (simp add: Unavailable_AsBot_def Unavailable_Client_sel Store_AsBot_def Store_Client_sel
      KVAppPrefix_def index_Values_def)

subsection \<open>C7: deleting\<close>

text \<open>
  C7. \<open>delete_channel_welcome\<close> answers with its confirmation text as a text response
  for every client, every state and every request body, also when nothing is stored
  and whatever the delete returned. On the platform's store, once the handler has
  run the key reads as \<open>NotFound\<close>, whether or not a value was stored before, and
  \<open>get_channel_welcome\<close> answers with the guidance text.
\<close>

theorem delete_confirms_and_removes:
  "fst (DeleteChannelWelcomeCall AsBot body w) =
     \<lparr>Type = CallResponseTypeOK, Text = ''Shown Welcome Bot Delete channel welcome''\<rparr>
   \<and> KVGet Store_Client KVAppPrefix ''welcome_message''
         (snd (DeleteChannelWelcomeCall Store_AsBot body s))
       = (Inl NotFound, snd (DeleteChannelWelcomeCall Store_AsBot body s))
   \<and> fst (GetChannelWelcomeCall Store_AsBot body'
         (snd (DeleteChannelWelcomeCall Store_AsBot body s)))
       = \<lparr>Type = CallResponseTypeOK,
          Text = ''You need to set the `welcome_messages` with set_welcome_message''\<rparr>"
  by (simp add: DeleteChannelWelcomeCall_def GetChannelWelcomeCall_def Store_AsBot_def
      Store_Client_sel NewTextResponse_def Let_def split: prod.splits)

theorem delete_confirms_and_removes_witness:
  "fst (DeleteChannelWelcomeCall Store_AsBot NoBody Map.empty) =
     \<lparr>Type = CallResponseTypeOK, Text = ''Shown Welcome Bot Delete channel welcome''\<rparr>
   \<and> fst (GetChannelWelcomeCall Store_AsBot NoBody
         (snd (DeleteChannelWelcomeCall Store_AsBot NoBody
            [(''wb'', ''welcome_message'') \<mapsto> JString ''hello''])))
       = \<lparr>Type = CallResponseTypeOK,
          Text = ''You need to set the `welcome_messages` with set_welcome_message''\<rparr>"
  using
    delete_confirms_and_removes
      [of Store_AsBot NoBody Map.empty
          "[(''wb'', ''welcome_message'') \<mapsto> JString ''hello'']" NoBody]
  by simp

subsection \<open>C10: the list does not show the message\<close>

text \<open>
  C10. The text \<open>list\<close> answers with is one of two fixed strings, chosen only by
  whether the read \<open>KVGet\<close> returned an error: the guidance text when it did,
  "Shown Welcome Bot List" when it did not. In particular, on the platform's store,
  for any two states that hold a welcome message (of any texts) the response is the
  same.
\<close>

theorem list_text_is_independent_of_message:
  "Text (fst (ListCall AsBot body w)) =
     (if isl (fst (KVGet (AsBot (Context (snd (Decode body)))) KVAppPrefix ''welcome_message'' w))
      then ''You need to set the `welcome_messages` with set_welcome_message''
      else ''Shown Welcome Bot List'')
   \<and> (s1 (KVAppPrefix, ''welcome_message'') = Some (JString t1)
        \<and> s2 (KVAppPrefix, ''welcome_message'') = Some (JString t2)
      \<longrightarrow> fst (ListCall Store_AsBot b1 s1) = fst (ListCall Store_AsBot b2 s2)
          \<and> Text (fst (ListCall Store_AsBot b1 s1)) = ''Shown Welcome Bot List'')"
  by (simp add: ListCall_def Store_AsBot_def Store_Client_sel NewTextResponse_def Let_def
      split: prod.splits sum.splits)

theorem list_text_is_independent_of_message_witness:
  "fst (ListCall Store_AsBot NoBody [(''wb'', ''welcome_message'') \<mapsto> JString ''Welcome to Acme!''])
   = fst (ListCall Store_AsBot NoBody [(''wb'', ''welcome_message'') \<mapsto> JString ''secret''])
   \<and> Text (fst (ListCall Store_AsBot NoBody
        [(''wb'', ''welcome_message'') \<mapsto> JString ''Welcome to Acme!'']))
     = ''Shown Welcome Bot List''"
  using list_text_is_independent_of_message
    [of Store_AsBot NoBody Map.empty
        "[(''wb'', ''welcome_message'') \<mapsto> JString ''Welcome to Acme!'']" "''Welcome to Acme!''"
        "[(''wb'', ''welcome_message'') \<mapsto> JString ''secret'']" "''secret''" NoBody NoBody]
  by (simp add: KVAppPrefix_def ListCall_def Store_AsBot_def Store_Client_sel)

subsection \<open>C3: the usage text\<close>

lemma commandHelp_enumerates:
  "list_all (enumerates commandHelp)
     [''preview'', ''list'', ''set_channel_welcome'', ''get_channel_welcome'',
      ''delete_channel_welcome'']"
  by code_simp

lemma commandHelp_has_no_help_entry: "\<not> enumerates commandHelp ''help''"
  by code_simp

text \<open>
  C3, as amended. For every request body (also none), every client and every state,
  \<open>HelpCall\<close> of \<open>src/unnamed/part_000\<close> answers with the text response that carries
  the whole usage text \<open>commandHelp\<close>, asks nothing of the client and leaves the state
  as it was. The usage text enumerates five commands: \<open>preview\<close>, \<open>list\<close>,
  \<open>set_channel_welcome\<close>, \<open>get_channel_welcome\<close> and \<open>delete_channel_welcome\<close>. It has
  no entry for \<open>help\<close> itself.
\<close>

theorem help_returns_usage_text:
  "HelpCall AsBot body w = (\<lparr>Type = CallResponseTypeOK, Text = commandHelp\<rparr>, w)
   \<and> accesses HelpCall AsBot body w = []
   \<and> list_all (enumerates commandHelp)
        [''preview'', ''list'', ''set_channel_welcome'', ''get_channel_welcome'',
         ''delete_channel_welcome'']
   \<and> \<not> enumerates commandHelp ''help''"
  using commandHelp_enumerates commandHelp_has_no_help_entry
  by (simp add: HelpCall_def NewTextResponse_def accesses_simps)

text \<open>
  The claim as it was stated fails: the text \<open>help\<close> answers with, here for a request
  with no body, does not enumerate all six commands.
\<close>

theorem help_enumerates_six_counterexample:
  "\<not> list_all (enumerates (Text (fst (HelpCall Store_AsBot NoBody Map.empty))))
       [''help'', ''list'', ''preview'', ''set_channel_welcome'', ''get_channel_welcome'',
        ''delete_channel_welcome'']"
  by (simp add: HelpCall_def NewTextResponse_def commandHelp_has_no_help_entry)

subsection \<open>C4: a set from a direct channel\<close>

text \<open>
  C4. The usage text says of \<open>set_channel_welcome\<close> that direct channels are not
  supported, and the claim has such a request rejected before the store is touched.
  \<open>SetChannelWelcomeCall\<close> does not look at the channel: for a request from a direct
  channel it performs the write and confirms it.
\<close>

theorem set_from_direct_channel_writes:
  "accesses SetChannelWelcomeCall Store_AsBot
     (Json \<lparr>Context = zeroContext
              \<lparr>ChannelID := ''dm1'',
               Channel := Some \<lparr>ChannelId = ''dm1'', Channel.Type = ChannelTypeDirect\<rparr>\<rparr>,
            Values = [''message'' \<mapsto> JString ''hi'']\<rparr>)
     Map.empty
   = [KVSetAccess ''wb'' ''welcome_message'' (JString ''hi'')]
   \<and> SetChannelWelcomeCall Store_AsBot
       (Json \<lparr>Context = zeroContext
                \<lparr>ChannelID := ''dm1'',
                 Channel := Some \<lparr>ChannelId = ''dm1'', Channel.Type = ChannelTypeDirect\<rparr>\<rparr>,
              Values = [''message'' \<mapsto> JString ''hi'']\<rparr>)
       Map.empty
     = (\<lparr>Type = CallResponseTypeOK, Text = ''Your message has been set''\<rparr>,
        [(''wb'', ''welcome_message'') \<mapsto> JString ''hi''])"
  by (simp add: accesses_simps SetChannelWelcomeCall_def Store_AsBot_def Store_Client_sel
      NewTextResponse_def KVAppPrefix_def index_Values_def)

theorem set_from_direct_channel_writes_witness:
  "Text (fst (SetChannelWelcomeCall Store_AsBot
     (Json \<lparr>Context = zeroContext
              \<lparr>ChannelID := ''dm1'',
               Channel := Some \<lparr>ChannelId = ''dm1'', Channel.Type = ChannelTypeDirect\<rparr>\<rparr>,
            Values = [''message'' \<mapsto> JString ''hi'']\<rparr>)
     Map.empty))
   = ''Your message has been set''"
  using set_from_direct_channel_writes
  by simp

subsection \<open>C8: the preview\<close>

text \<open>
  C8. The usage text says of \<open>preview\<close> that the welcome message for the given team
  is previewed, rendered with the current user's username. \<open>PreviewCall\<close> (the same
  in both files) reads nothing of the request: for user \<open>alice\<close> and team \<open>Acme\<close> it
  answers with the fixed text "Shown Welcome Bot Preview", which names neither, and
  for user \<open>bob\<close> with the same. It asks nothing of the client.
\<close>

theorem preview_is_a_fixed_text:
  "PreviewCall Store_AsBot
     (Json \<lparr>Context = zeroContext\<lparr>ActingUser := Some \<lparr>Id = ''u1'', Username = ''alice''\<rparr>\<rparr>,
            Values = [''Team Name'' \<mapsto> JString ''Acme'']\<rparr>)
     Map.empty
   = (\<lparr>Type = CallResponseTypeOK, Text = ''Shown Welcome Bot Preview''\<rparr>, Map.empty)
   \<and> PreviewCall Store_AsBot
       (Json \<lparr>Context = zeroContext\<lparr>ActingUser := Some \<lparr>Id = ''u2'', Username = ''bob''\<rparr>\<rparr>,
              Values = [''Team Name'' \<mapsto> JString ''Acme'']\<rparr>)
       Map.empty
     = (\<lparr>Type = CallResponseTypeOK, Text = ''Shown Welcome Bot Preview''\<rparr>, Map.empty)
   \<and> Main_PreviewCall Store_AsBot
       (Json \<lparr>Context = zeroContext\<lparr>ActingUser := Some \<lparr>Id = ''u1'', Username = ''alice''\<rparr>\<rparr>,
              Values = [''Team Name'' \<mapsto> JString ''Acme'']\<rparr>)
       Map.empty
     = Inr (\<lparr>Type = CallResponseTypeOK, Text = ''Shown Welcome Bot Preview''\<rparr>, Map.empty)
   \<and> \<not> contains ''Shown Welcome Bot Preview'' ''alice''
   \<and> \<not> contains ''Shown Welcome Bot Preview'' ''Acme''
   \<and> accesses PreviewCall Store_AsBot
       (Json \<lparr>Context = zeroContext\<lparr>ActingUser := Some \<lparr>Id = ''u1'', Username = ''alice''\<rparr>\<rparr>,
              Values = [''Team Name'' \<mapsto> JString ''Acme'']\<rparr>)
       Map.empty
     = []"
  by (simp add: PreviewCall_def Main_PreviewCall_def NewTextResponse_def accesses_simps)

subsection \<open>C9: a request without a body\<close>

text \<open>
  C9. The claim has every handler absorb a body that does not decode and still write
  a response. \<open>HelpCall\<close> of \<open>src/main.go\<close> drops the decoder's error and then reads
  \<open>c.Context.ActingUser.Id\<close>; after a failed decode the request is the zero value,
  its \<open>ActingUser\<close> is nil, and the handler panics with nothing written. This holds
  for a request with no body and for a body that is not JSON, whatever the client.
\<close>

theorem main_help_panics_without_body:
  "Main_HelpCall AsBot NoBody w = Inl NilPointerDereference
   \<and> Main_HelpCall AsBot Malformed w = Inl NilPointerDereference"
  by (simp add: Main_HelpCall_def zeroCallRequest_def zeroContext_def)

end
